theory Spec2Isabelle
  imports Complex_Main
begin

section \<open>Numbers of the Python runtime\<close>

text \<open>
  The source computes with binary64 floats (Python \<open>float\<close>, \<open>numpy.float64\<close>).
  \<open>Fin a\<close> is the finite float whose exact value is the real number \<open>a\<close>; the values of
  the program are those with \<open>a\<close> representable in binary64 (\<open>is_b64 a\<close> below). A decimal
  literal of the source such as \<open>0.18\<close> is not representable: it denotes the nearest
  float, \<open>py 0.18\<close>, and so does the number \<open>12.35\<close> that a caller passes. Every arithmetic
  operation rounds its exact result to the nearest float, ties to the even significand.
  The sign of zero is not modelled.
\<close>

datatype pyfloat = Fin real | PInf | NInf | NaN

text \<open>\<open>x > c\<close> for a float \<open>x\<close> and a finite constant \<open>c\<close>; every comparison with NaN is false.\<close>

fun gt :: "pyfloat \<Rightarrow> real \<Rightarrow> bool" where
  "gt (Fin a) c = (c < a)"
| "gt PInf c = True"
| "gt NInf c = False"
| "gt NaN c = False"

text \<open>Rounding to the nearest integer, ties to the even one.\<close>

definition round_half_even :: "real \<Rightarrow> int" where
  "round_half_even x =
     (let f = \<lfloor>x\<rfloor>; r = x - of_int f
      in if r < 1 / 2 then f
         else if 1 / 2 < r then f + 1
         else if even f then f else f + 1)"

subsection \<open>Rounding to binary64\<close>

definition pow2 :: "int \<Rightarrow> real" where
  "pow2 e = (if 0 \<le> e then 2 ^ nat e else 1 / 2 ^ nat (- e))"

text \<open>
  The binary exponent of a positive number: \<open>exponent a = e\<close> with \<open>2 ^ e \<le> a < 2 ^ (e + 1)\<close>, kept
  between the exponent of the subnormal numbers, -1022, and 1024, where a number has
  left the range of binary64.
\<close>

function exp_up :: "real \<Rightarrow> int \<Rightarrow> int" where
  "exp_up a e = (if 2 \<le> a \<and> e < 1024 then exp_up (a / 2) (e + 1) else e)"
  by pat_completeness auto
termination
  by (relation "measure (\<lambda>(a, e). nat (1024 - e))") auto

function exp_down :: "real \<Rightarrow> int \<Rightarrow> int" where
  "exp_down a e = (if a < 1 \<and> - 1022 < e then exp_down (a * 2) (e - 1) else e)"
  by pat_completeness auto
termination
  by (relation "measure (\<lambda>(a, e). nat (e + 1022))") auto

declare exp_up.simps [simp del] exp_down.simps [simp del]

definition exponent :: "real \<Rightarrow> int" where
  "exponent a = (if 1 \<le> a then exp_up a 0 else exp_down a 0)"

text \<open>The multiple of the unit in the last place (53 significant bits) nearest to \<open>x\<close>,
  ties to the even multiple.\<close>

definition b64r :: "real \<Rightarrow> real" where
  "b64r x =
     (if x = 0 then 0
      else let q = pow2 (exponent \<bar>x\<bar> - 52)
           in of_int (round_half_even (x / q)) * q)"

text \<open>The float nearest to \<open>x\<close>: an infinity once the rounded value has reached \<open>2 ^ 1024\<close>.\<close>

definition b64 :: "real \<Rightarrow> pyfloat" where
  "b64 x =
     (let r = b64r x
      in if pow2 1024 \<le> r then PInf else if r \<le> - pow2 1024 then NInf else Fin r)"

text \<open>The float that a decimal literal denotes, and the finite floats among the reals.\<close>

definition py :: "real \<Rightarrow> pyfloat" where
  "py x = b64 x"

definition is_b64 :: "real \<Rightarrow> bool" where
  "is_b64 a = (b64 a = Fin a)"

subsection \<open>Arithmetic\<close>

text \<open>Addition, subtraction and multiplication of floats, as Python and numpy compute
  them.\<close>

fun fadd :: "pyfloat \<Rightarrow> pyfloat \<Rightarrow> pyfloat" where
  "fadd (Fin a) (Fin b) = b64 (a + b)"
| "fadd (Fin a) PInf = PInf"
| "fadd (Fin a) NInf = NInf"
| "fadd (Fin a) NaN = NaN"
| "fadd PInf (Fin b) = PInf"
| "fadd PInf PInf = PInf"
| "fadd PInf NInf = NaN"
| "fadd PInf NaN = NaN"
| "fadd NInf (Fin b) = NInf"
| "fadd NInf PInf = NaN"
| "fadd NInf NInf = NInf"
| "fadd NInf NaN = NaN"
| "fadd NaN y = NaN"

fun fsub :: "pyfloat \<Rightarrow> pyfloat \<Rightarrow> pyfloat" where
  "fsub (Fin a) (Fin b) = b64 (a - b)"
| "fsub (Fin a) PInf = NInf"
| "fsub (Fin a) NInf = PInf"
| "fsub (Fin a) NaN = NaN"
| "fsub PInf (Fin b) = PInf"
| "fsub PInf PInf = NaN"
| "fsub PInf NInf = PInf"
| "fsub PInf NaN = NaN"
| "fsub NInf (Fin b) = NInf"
| "fsub NInf PInf = NInf"
| "fsub NInf NInf = NaN"
| "fsub NInf NaN = NaN"
| "fsub NaN y = NaN"

fun fmul :: "pyfloat \<Rightarrow> pyfloat \<Rightarrow> pyfloat" where
  "fmul (Fin a) (Fin b) = b64 (a * b)"
| "fmul (Fin a) PInf = (if 0 < a then PInf else if a < 0 then NInf else NaN)"
| "fmul (Fin a) NInf = (if 0 < a then NInf else if a < 0 then PInf else NaN)"
| "fmul (Fin a) NaN = NaN"
| "fmul PInf (Fin b) = (if 0 < b then PInf else if b < 0 then NInf else NaN)"
| "fmul PInf PInf = PInf"
| "fmul PInf NInf = NInf"
| "fmul PInf NaN = NaN"
| "fmul NInf (Fin b) = (if 0 < b then NInf else if b < 0 then PInf else NaN)"
| "fmul NInf PInf = NInf"
| "fmul NInf NInf = PInf"
| "fmul NInf NaN = NaN"
| "fmul NaN y = NaN"

text \<open>Division where the dividend is a \<open>numpy.float64\<close>: a zero divisor gives an infinity or
  NaN (with a warning), it does not raise.\<close>

fun np_truediv :: "pyfloat \<Rightarrow> pyfloat \<Rightarrow> pyfloat" where
  "np_truediv (Fin a) (Fin b) =
     (if b \<noteq> 0 then b64 (a / b)
      else if 0 < a then PInf else if a < 0 then NInf else NaN)"
| "np_truediv (Fin a) PInf = Fin 0"
| "np_truediv (Fin a) NInf = Fin 0"
| "np_truediv (Fin a) NaN = NaN"
| "np_truediv PInf (Fin b) = (if b < 0 then NInf else PInf)"
| "np_truediv PInf PInf = NaN"
| "np_truediv PInf NInf = NaN"
| "np_truediv PInf NaN = NaN"
| "np_truediv NInf (Fin b) = (if b < 0 then PInf else NInf)"
| "np_truediv NInf PInf = NaN"
| "np_truediv NInf NInf = NaN"
| "np_truediv NInf NaN = NaN"
| "np_truediv NaN y = NaN"

subsection \<open>Rounding to decimal places\<close>

text \<open>
  Python's \<open>round(x, n)\<close> on a \<open>float\<close>, for \<open>n \<ge> 0\<close>: the exact value of \<open>x\<close> is rounded to
  \<open>n\<close> decimal places, ties to even, and the float nearest to that decimal number is
  returned. With \<open>ndigits\<close> given, infinities and NaN are returned unchanged.
\<close>

definition py_round_fin :: "real \<Rightarrow> nat \<Rightarrow> real" where
  "py_round_fin a n = b64r (of_int (round_half_even (a * 10 ^ n)) / 10 ^ n)"

fun py_round :: "pyfloat \<Rightarrow> nat \<Rightarrow> pyfloat" where
  "py_round (Fin a) n = Fin (py_round_fin a n)"
| "py_round PInf n = PInf"
| "py_round NInf n = NInf"
| "py_round NaN n = NaN"

text \<open>
  \<open>round(x, n)\<close> on a \<open>numpy.float64\<close> is numpy's rounding: multiply by \<open>10 ^ n\<close>, round to the
  nearest integer (ties to even), divide by \<open>10 ^ n\<close>, each step in binary64.
\<close>

fun rint :: "pyfloat \<Rightarrow> pyfloat" where
  "rint (Fin a) = Fin (of_int (round_half_even a))"
| "rint PInf = PInf"
| "rint NInf = NInf"
| "rint NaN = NaN"

definition np_round :: "pyfloat \<Rightarrow> nat \<Rightarrow> pyfloat" where
  "np_round x n = np_truediv (rint (fmul x (Fin (10 ^ n)))) (Fin (10 ^ n))"

text \<open>\<open>numpy.mean\<close> of a list of fewer than 8 floats: the values are added from the left,
  starting from zero, and the sum is divided by their number; the mean of no values is
  NaN.\<close>

definition np_mean :: "real list \<Rightarrow> pyfloat" where
  "np_mean xs = np_truediv (foldl fadd (Fin 0) (map Fin xs)) (Fin (real (length xs)))"

text \<open>The slice \<open>xs[k:]\<close>: a negative \<open>k\<close> counts from the end, and the start is clipped
  into the list.\<close>

definition slice_from :: "'a list \<Rightarrow> int \<Rightarrow> 'a list" where
  "slice_from xs k =
     (let n = int (length xs);
          start = (if k < 0 then max 0 (n + k) else min k n)
      in drop (nat start) xs)"

text \<open>
  The format \<open>{x:.1f}\<close>: the exact value of the float correctly rounded to one decimal
  place, a minus sign for every negative value (also one that rounds to zero), and the
  words Python prints for the non-finite values.
\<close>

fun show_nat :: "nat \<Rightarrow> string" where
  "show_nat n =
     (if n < 10 then [''0123456789'' ! n]
      else show_nat (n div 10) @ [''0123456789'' ! (n mod 10)])"

declare show_nat.simps [simp del]

fun format_1f :: "pyfloat \<Rightarrow> string" where
  "format_1f (Fin a) =
     (let n = nat (round_half_even (\<bar>a\<bar> * 10))
      in (if a < 0 then ''-'' else []) @ show_nat (n div 10) @ ''.'' @ show_nat (n mod 10))"
| "format_1f PInf = ''inf''"
| "format_1f NInf = ''-inf''"
| "format_1f NaN = ''nan''"

section \<open>Exceptions and JSON values\<close>

text \<open>The exceptions that the modelled code raises or catches. \<open>ServiceError msg\<close> stands
  for any exception that the client library of the text-generation service raises.\<close>

datatype py_error = KeyError string | ValueError | AttributeError | ServiceError string

text \<open>What \<open>json.loads\<close> can return. \<open>JObj kvs\<close> is a \<open>dict\<close>: \<open>kvs\<close> lists its items and
  \<open>map_of kvs\<close> is its lookup.\<close>

datatype json =
    JNull | JBool bool | JNum real | JStr string | JArr "json list"
  | JObj "(string \<times> json) list"

text \<open>\<open>d[key]\<close> raises \<open>KeyError\<close> for a missing key; \<open>d.get(key, default)\<close> does not.\<close>

definition dict_getitem :: "(string \<times> 'v) list \<Rightarrow> string \<Rightarrow> py_error + 'v" where
  "dict_getitem d key = (case map_of d key of None \<Rightarrow> Inl (KeyError key) | Some v \<Rightarrow> Inr v)"

definition dict_get :: "(string \<times> 'v) list \<Rightarrow> string \<Rightarrow> 'v \<Rightarrow> 'v" where
  "dict_get d key dflt = (case map_of d key of None \<Rightarrow> dflt | Some v \<Rightarrow> v)"

section \<open>Configuration (config.py)\<close>

definition DEVIATION_CRITICAL :: real where
  "DEVIATION_CRITICAL = 20"

definition DEVIATION_MODERATE :: real where
  "DEVIATION_MODERATE = 10"

definition DEVIATION_MINOR :: real where
  "DEVIATION_MINOR = 5"

definition IS_CODES :: "(string \<times> string) list" where
  "IS_CODES =
     [(''foundation'', ''IS 1080, IS 6403''),
      (''seismic'', ''IS 1893 (Part 1)''),
      (''concrete'', ''IS 456:2000''),
      (''loading'', ''IS 875 (Parts 1-5)'')]"

section \<open>Gemini client (gemini\_client.py)\<close>

text \<open>
  Strings are lists of 8-bit characters, read as code points below 256. \<open>str.strip()\<close>
  removes the characters for which \<open>str.isspace\<close> holds.
\<close>

definition is_space :: "char \<Rightarrow> bool" where
  "is_space c = ((of_char c :: nat) \<in> {9, 10, 11, 12, 13, 28, 29, 30, 31, 32, 133, 160})"

definition rstrip_chars :: "(char \<Rightarrow> bool) \<Rightarrow> string \<Rightarrow> string" where
  "rstrip_chars P s = rev (dropWhile P (rev s))"

definition strip :: "string \<Rightarrow> string" where
  "strip s = rstrip_chars is_space (dropWhile is_space s)"

text \<open>\<open>re.sub(r"```(?:json)?", "", raw)\<close>: every three backquotes, with the word \<open>json\<close>
  when it follows them directly, are removed, scanning from the left.\<close>

function sub_fences :: "string \<Rightarrow> string" where
  "sub_fences s =
     (if s = [] then []
      else if take 3 s = ''```''
           then (if take 4 (drop 3 s) = ''json'' then sub_fences (drop 7 s)
                 else sub_fences (drop 3 s))
           else hd s # sub_fences (tl s))"
  by pat_completeness auto
termination
  by (relation "measure length") auto

declare sub_fences.simps [simp del]

text \<open>
  \<open>call_gemini\<close> builds the client, sends the prompt and retries on rate limiting; all of it
  is the external service. Its outcome is the parameter \<open>resp\<close>: the stripped response
  text, or the exception that leaves the call. \<open>json.loads\<close> is the parameter \<open>loads\<close>,
  with \<open>None\<close> for \<open>JSONDecodeError\<close>, which is re-raised as \<open>ValueError\<close>.
\<close>

definition call_gemini_json ::
  "(py_error + string) \<Rightarrow> (string \<Rightarrow> json option) \<Rightarrow> py_error + json"
where
  "call_gemini_json resp loads =
     (case resp of
        Inl e \<Rightarrow> Inl e
      | Inr raw \<Rightarrow>
          (let raw' = strip (rstrip_chars (\<lambda>c. c = CHR ''`'') (strip (sub_fences raw)))
           in case loads raw' of
                None \<Rightarrow> Inl ValueError
              | Some v \<Rightarrow> Inr v))"

section \<open>Adaptive recalibration engine (recalibration\_engine.py)\<close>

record RecalibrationPatch =
  deviation_percent :: pyfloat
  severity :: string
  structural_action :: string
  add_depth_mm :: int
  add_piles :: int
  new_risk_band :: string
  cost_delta_cr :: pyfloat
  is_code_reference :: string
  gemini_rationale :: json
  site_instructions :: json
  requires_approval :: bool

text \<open>
  The \<open>try\<close> block of \<open>_gemini_explanations\<close>. The prompt only reaches the external
  service, so it is not built here; an exception while building it would be one of the
  outcomes \<open>Inl e\<close> of \<open>resp\<close>. A parsed value that is not a \<open>dict\<close> has no method \<open>get\<close>.
\<close>

definition gemini_try ::
  "(py_error + string) \<Rightarrow> (string \<Rightarrow> json option) \<Rightarrow> py_error + json \<times> json"
where
  "gemini_try resp loads =
     (case call_gemini_json resp loads of
        Inl e \<Rightarrow> Inl e
      | Inr result \<Rightarrow>
          (case result of
             JObj d \<Rightarrow>
               Inr (dict_get d ''rationale'' (JStr []),
                    dict_get d ''site_instructions'' (JStr []))
           | _ \<Rightarrow> Inl AttributeError))"

text \<open>The two strings of the \<open>except\<close> branch.\<close>

definition fallback_rationale :: "pyfloat \<Rightarrow> string" where
  "fallback_rationale dev =
     ''A '' @ format_1f dev
     @ ''% SBC drop reduces the safety factor below acceptable IS code limits. ''
     @ ''The proposed depth increase and pile addition restore the required bearing capacity per IS 6403. ''
     @ ''Immediate implementation prevents potential differential settlement and structural distress.''"

definition fallback_site_instructions :: "string \<Rightarrow> string" where
  "fallback_site_instructions action =
     ''Stop all foundation work. Contact the structural engineer. ''
     @ ''Implement '' @ [CHR 0x27] @ action @ [CHR 0x27] @ '' before resuming.''"

definition gemini_explanations ::
  "(py_error + string) \<Rightarrow> (string \<Rightarrow> json option) \<Rightarrow> pyfloat \<Rightarrow> string \<Rightarrow> string
     \<Rightarrow> json \<times> json"
where
  "gemini_explanations resp loads dev action sev =
     (case gemini_try resp loads of
        Inr r \<Rightarrow> r
      | Inl e \<Rightarrow> (JStr (fallback_rationale dev), JStr (fallback_site_instructions action)))"

text \<open>
  \<open>generate_patch\<close>. The arguments \<open>project_context\<close> and \<open>current_variant\<close> only enter the
  prompt and are left out with it. The deviation and the budget are Python floats, so
  both calls of \<open>round\<close> are Python's. The subscripts of \<open>IS_CODES\<close> are the only places
  of the function that can raise.
\<close>

definition generate_patch ::
  "(py_error + string) \<Rightarrow> (string \<Rightarrow> json option) \<Rightarrow> pyfloat \<Rightarrow> real
     \<Rightarrow> py_error + RecalibrationPatch"
where
  "generate_patch resp loads dev budget_cr =
     (let (sev, depth_mm, piles, risk_band, cost_delta_pct, action) =
            (if gt dev DEVIATION_CRITICAL then
               (''CRITICAL'', 600, 4, ''LOW'', py 0.18,
                ''Increase founding depth by 600mm. ''
                @ ''Add 4 bored cast-in-situ piles per column. ''
                @ ''Perform additional plate load test per IS 1888.'')
             else if gt dev DEVIATION_MODERATE then
               (''MODERATE'', 350, 2, ''MODERATE'', py 0.09,
                ''Increase founding depth by 350mm. ''
                @ ''Add 2 piles for load redistribution. ''
                @ ''Recheck SBC with dynamic cone penetration test.'')
             else
               (''MINOR'', 150, 0, ''LOW-MODERATE'', py 0.03,
                ''Increase reinforcement grade from Fe415 to Fe500. ''
                @ ''Add 150mm to footing depth as precaution.''));
          cost_delta = py_round (fmul (Fin budget_cr) cost_delta_pct) 2;
          (rationale, site_instr) = gemini_explanations resp loads dev action sev
      in case dict_getitem IS_CODES ''foundation'' of
           Inl e \<Rightarrow> Inl e
         | Inr foundation \<Rightarrow>
             (case dict_getitem IS_CODES ''seismic'' of
                Inl e \<Rightarrow> Inl e
              | Inr seismic \<Rightarrow>
                  Inr \<lparr>deviation_percent = py_round dev 2,
                       severity = sev,
                       structural_action = action,
                       add_depth_mm = depth_mm,
                       add_piles = piles,
                       new_risk_band = risk_band,
                       cost_delta_cr = cost_delta,
                       is_code_reference = foundation @ ''; '' @ seismic,
                       gemini_rationale = rationale,
                       site_instructions = site_instr,
                       requires_approval = (sev \<in> set [''CRITICAL'', ''MODERATE''])\<rparr>))"

section \<open>Sensor stream engine (sensor\_engine.py)\<close>

record SensorReading =
  index :: int
  sbc_kNm2 :: real
  is_anomaly :: bool
  timestamp :: string

record SensorStreamResult =
  readings :: "SensorReading list"
  deviation_detected :: bool
  deviation_percent :: pyfloat
  alert_level :: string
  trigger_recal :: bool

text \<open>
  The random generator is a parameter: \<open>rng i loc scale\<close> is the value that the call
  \<open>rng.normal(loc, scale)\<close> returns in iteration \<open>i\<close> of the loop, which makes exactly one
  draw per iteration. Theorems hold for every such function, hence for every seed.
\<close>

type_synonym rng = "int \<Rightarrow> real \<Rightarrow> real \<Rightarrow> real"

text \<open>
  The body of the \<open>for\<close> loop of \<open>simulate_stream\<close> over the remaining indices; the loop
  state is the list of readings and the flag \<open>deviation_detected\<close>. The product
  \<open>design_sbc * 0.78\<close> is smaller in magnitude than \<open>design_sbc\<close> and rounding a float to one
  decimal place does not enlarge it beyond the largest float, so both stay finite.
\<close>

fun stream_loop ::
  "rng \<Rightarrow> real \<Rightarrow> int \<Rightarrow> int list \<Rightarrow> SensorReading list \<times> bool \<Rightarrow> SensorReading list \<times> bool"
where
  "stream_loop rng design_sbc deviation_start [] st = st"
| "stream_loop rng design_sbc deviation_start (i # rest) (rs, detected) =
     (let anomaly = (deviation_start \<le> i);
          sbc = (if anomaly then rng i (b64r (design_sbc * b64r 0.78)) 10
                 else rng i design_sbc 5);
          detected' = (if anomaly then True else detected)
      in stream_loop rng design_sbc deviation_start rest
           (rs @ [\<lparr>index = i, sbc_kNm2 = py_round_fin sbc 1, is_anomaly = anomaly,
                    timestamp = ''''\<rparr>], detected'))"

text \<open>The conditional expression that \<open>simulate_stream\<close> assigns to \<open>alert_level\<close>.\<close>

definition simulate_alert_level :: "pyfloat \<Rightarrow> string" where
  "simulate_alert_level dev =
     (if gt dev 20 then ''CRITICAL''
      else if gt dev 10 then ''WARNING''
      else if gt dev 5 then ''WATCH''
      else ''NONE'')"

text \<open>In \<open>simulate_stream\<close> the deviation is converted with \<open>float(...)\<close> before it is rounded,
  so the rounding is Python's.\<close>

definition simulate_stream :: "rng \<Rightarrow> real \<Rightarrow> int \<Rightarrow> int \<Rightarrow> SensorStreamResult" where
  "simulate_stream rng design_sbc deviation_start total_n =
     (let (rs, detected) = stream_loop rng design_sbc deviation_start [1..total_n] ([], False);
          dev_raw =
            (if detected
             then (let recent_avg = np_mean (map sbc_kNm2 (slice_from rs (- 5)))
                   in fmul (np_truediv (fsub (Fin design_sbc) recent_avg) (Fin design_sbc))
                        (Fin 100))
             else Fin 0);
          dev = py_round dev_raw 2
      in \<lparr>readings = rs,
          deviation_detected = detected,
          deviation_percent = dev,
          alert_level = simulate_alert_level dev,
          trigger_recal = gt dev 5\<rparr>)"

text \<open>The conditional expression that \<open>ingest_real_readings\<close> assigns to \<open>alert_level\<close>.\<close>

definition ingest_alert_level :: "pyfloat \<Rightarrow> string" where
  "ingest_alert_level dev =
     (if gt dev 20 then ''CRITICAL''
      else if gt dev 10 then ''WARNING''
      else if gt dev 5 then ''WATCH''
      else ''NONE'')"

text \<open>In \<open>ingest_real_readings\<close> the value that is rounded is a \<open>numpy.float64\<close>, so the
  rounding is numpy's.\<close>

definition ingest_real_readings :: "real list \<Rightarrow> real \<Rightarrow> SensorStreamResult" where
  "ingest_real_readings raw_values design_sbc =
     (let rs = map (\<lambda>(i, v). \<lparr>index = int i + 1, sbc_kNm2 = v, is_anomaly = False,
                               timestamp = ''''\<rparr>)
                   (enumerate 0 raw_values)
      in if length raw_values < 3
         then \<lparr>readings = rs, deviation_detected = False, deviation_percent = Fin 0,
                alert_level = ''NONE'', trigger_recal = False\<rparr>
         else (let recent_avg = np_mean (slice_from raw_values (- 5));
                   dev =
                     np_round
                       (fmul (np_truediv (fsub (Fin design_sbc) recent_avg) (Fin design_sbc))
                          (Fin 100)) 2
               in \<lparr>readings = rs,
                   deviation_detected = gt dev 0,
                   deviation_percent = dev,
                   alert_level = ingest_alert_level dev,
                   trigger_recal = gt dev 5\<rparr>))"

section \<open>Definitions used to state and to instantiate the theorems\<close>

text \<open>A generator whose every draw is the mean it is asked for.\<close>

definition mean_rng :: rng where
  "mean_rng i loc scale = loc"

text \<open>The window of the specification: the last 5 readings, or all readings if fewer
  than 5 exist; its mean as the runtime computes it; and the deviation
  \<open>(B - recent_avg) / B * 100\<close> as the runtime computes it, before it is rounded to 2
  decimal places.\<close>

definition spec_window :: "'a list \<Rightarrow> 'a list" where
  "spec_window vs = (if length vs < 5 then vs else drop (length vs - 5) vs)"

definition spec_recent_avg :: "real list \<Rightarrow> pyfloat" where
  "spec_recent_avg vs = np_mean (spec_window vs)"

definition spec_deviation :: "real \<Rightarrow> pyfloat \<Rightarrow> pyfloat" where
  "spec_deviation B recent_avg =
     fmul (np_truediv (fsub (Fin B) recent_avg) (Fin B)) (Fin 100)"

text \<open>The tier table of the specification: severity, added depth in mm, added piles,
  projected risk band, cost delta for the budget (the budget times the fraction of the
  tier, rounded to 2 decimal places) and the approval flag.\<close>

definition spec_tier_fields ::
  "real \<Rightarrow> real \<Rightarrow> string \<times> int \<times> int \<times> string \<times> pyfloat \<times> bool"
where
  "spec_tier_fields d budget =
     (if 20 < d
        then (''CRITICAL'', 600, 4, ''LOW'', py_round (fmul (Fin budget) (py 0.18)) 2, True)
      else if 10 < d \<and> d \<le> 20
        then (''MODERATE'', 350, 2, ''MODERATE'', py_round (fmul (Fin budget) (py 0.09)) 2, True)
      else (''MINOR'', 150, 0, ''LOW-MODERATE'', py_round (fmul (Fin budget) (py 0.03)) 2, False))"

text \<open>The action texts of the three branches of \<open>generate_patch\<close>, joined.\<close>

definition action_critical :: string where
  "action_critical =
     ''Increase founding depth by 600mm. Add 4 bored cast-in-situ piles per column. Perform additional plate load test per IS 1888.''"

definition action_moderate :: string where
  "action_moderate =
     ''Increase founding depth by 350mm. Add 2 piles for load redistribution. Recheck SBC with dynamic cone penetration test.''"

definition action_minor :: string where
  "action_minor =
     ''Increase reinforcement grade from Fe415 to Fe500. Add 150mm to footing depth as precaution.''"

text \<open>A decoder that knows two texts: the empty object and the empty array.\<close>

definition loads_small :: "string \<Rightarrow> json option" where
  "loads_small s =
     (if s = ''{}'' then Some (JObj []) else if s = ''[]'' then Some (JArr []) else None)"

section \<open>Auxiliary facts\<close>

lemmas float_eval =
  py_def is_b64_def b64_def b64r_def exponent_def exp_up.simps exp_down.simps pow2_def
  round_half_even_def py_round_fin_def np_round_def np_mean_def Let_def

lemma py_round_fin_zero: "py_round_fin 0 n = 0"
  by (simp add: py_round_fin_def round_half_even_def b64r_def)

lemma gt_mono: "gt dev c \<Longrightarrow> c' \<le> c \<Longrightarrow> gt dev c'"
  by (cases dev) simp_all

subsection \<open>Floats at the rounding ties\<close>

text \<open>
  The literal \<open>0.03\<close> is a float just below 3/100, so \<open>2.5 * 0.03\<close> lies below 0.075 and is
  rounded down; the literal \<open>12.35\<close> is a float just below 1235/100 and is printed as 12.3.
\<close>

lemma cost_delta_below_tie: "py_round (fmul (Fin (5 / 2)) (py 0.03)) 2 = py 0.07"
  by (simp add: float_eval)

lemma format_1f_below_tie: "format_1f (py 12.35) = ''12.3''"
  by (simp add: float_eval show_nat.simps)

lemma format_1f_example: "format_1f (py 16.89) = ''16.9''"
  by (simp add: float_eval show_nat.simps)

subsection \<open>The loop and the fields of a stream result\<close>

lemma stream_loop_readings:
  "fst (stream_loop rng b s is (rs, d)) =
     rs @ map (\<lambda>i. \<lparr>index = i,
                      sbc_kNm2 = py_round_fin
                        (if s \<le> i then rng i (b64r (b * b64r 0.78)) 10 else rng i b 5) 1,
                      is_anomaly = (s \<le> i), timestamp = []\<rparr>) is"
  by (induction "is" arbitrary: rs d) (simp_all add: Let_def)

lemma stream_loop_detected:
  "snd (stream_loop rng b s is (rs, d)) = (d \<or> (\<exists>i\<in>set is. s \<le> i))"
  by (induction "is" arbitrary: rs d) (auto simp add: Let_def)

lemma simulate_trigger:
  "trigger_recal (simulate_stream rng b s n) = gt (deviation_percent (simulate_stream rng b s n)) 5"
  by (simp add: simulate_stream_def Let_def split: prod.splits)

lemma simulate_alert:
  "alert_level (simulate_stream rng b s n) =
     simulate_alert_level (deviation_percent (simulate_stream rng b s n))"
  by (simp add: simulate_stream_def Let_def split: prod.splits)

lemma simulate_readings:
  "readings (simulate_stream rng b s n) = fst (stream_loop rng b s [1..n] ([], False))"
  by (simp add: simulate_stream_def Let_def split: prod.splits)

lemma simulate_detected:
  "deviation_detected (simulate_stream rng b s n) = (1 \<le> n \<and> s \<le> n)"
proof -
  have "deviation_detected (simulate_stream rng b s n) =
          snd (stream_loop rng b s [1..n] ([], False))"
    by (simp add: simulate_stream_def Let_def split: prod.splits)
  also have "\<dots> = (\<exists>i\<in>{1..n}. s \<le> i)"
    by (simp add: stream_loop_detected)
  also have "\<dots> = (1 \<le> n \<and> s \<le> n)"
    by auto
  finally show ?thesis .
qed

lemma slice_from_last_5: "slice_from xs (- 5) = spec_window xs"
  by (simp add: slice_from_def spec_window_def Let_def max_def nat_diff_distrib)

lemma spec_window_map: "spec_window (map f xs) = map f (spec_window xs)"
  by (simp add: spec_window_def drop_map)

lemma simulate_deviation:
  "deviation_percent (simulate_stream rng b s n) =
     py_round
       (if deviation_detected (simulate_stream rng b s n)
        then spec_deviation b (spec_recent_avg (map sbc_kNm2 (readings (simulate_stream rng b s n))))
        else Fin 0) 2"
  by (simp add: simulate_stream_def Let_def slice_from_last_5 spec_window_map
      spec_deviation_def spec_recent_avg_def split: prod.splits)

lemma simulate_record:
  "simulate_stream rng b s n =
     \<lparr>readings = readings (simulate_stream rng b s n),
      deviation_detected = deviation_detected (simulate_stream rng b s n),
      deviation_percent = deviation_percent (simulate_stream rng b s n),
      alert_level = simulate_alert_level (deviation_percent (simulate_stream rng b s n)),
      trigger_recal = gt (deviation_percent (simulate_stream rng b s n)) 5\<rparr>"
  by (simp add: simulate_alert [symmetric] simulate_trigger [symmetric])

lemma ingest_trigger:
  "trigger_recal (ingest_real_readings vs b) = gt (deviation_percent (ingest_real_readings vs b)) 5"
  by (simp add: ingest_real_readings_def Let_def)

lemma ingest_alert:
  "alert_level (ingest_real_readings vs b) =
     ingest_alert_level (deviation_percent (ingest_real_readings vs b))"
  by (simp add: ingest_real_readings_def Let_def ingest_alert_level_def)

lemma ingest_detected:
  "deviation_detected (ingest_real_readings vs b) =
     gt (deviation_percent (ingest_real_readings vs b)) 0"
  by (simp add: ingest_real_readings_def Let_def)

lemma ingest_readings_values:
  "map sbc_kNm2 (readings (ingest_real_readings vs b)) = vs"
  by (simp add: ingest_real_readings_def Let_def enumerate_eq_zip split_def o_def)

lemma ingest_deviation:
  assumes "3 \<le> length vs"
  shows "deviation_percent (ingest_real_readings vs B) =
     np_round (spec_deviation B (spec_recent_avg vs)) 2"
proof -
  from assms have "\<not> length vs < 3" by simp
  then show ?thesis
    by (simp add: ingest_real_readings_def Let_def slice_from_last_5 spec_deviation_def
        spec_recent_avg_def)
qed

lemma simulate_deviation_window:
  assumes "1 \<le> S" "S \<le> N"
  shows "deviation_percent (simulate_stream rng B S N) =
     py_round
       (spec_deviation B (spec_recent_avg (map sbc_kNm2 (readings (simulate_stream rng B S N))))) 2"
  using assms by (simp add: simulate_deviation simulate_detected)

subsection \<open>The scenarios, evaluated\<close>

lemmas window_eval = spec_recent_avg_def spec_window_def spec_deviation_def

lemma normal_mean: "spec_recent_avg [180, 179, 181, 178, 180] = py 179.6"
  by (simp add: window_eval float_eval)

lemma normal_deviation:
  "deviation_percent (ingest_real_readings [180, 179, 181, 178, 180] 180) = py 0.22"
  by (simp add: ingest_deviation window_eval float_eval)

lemma drop_mean: "spec_recent_avg [180, 150, 148, 151, 149] = py 155.6"
  by (simp add: window_eval float_eval)

lemma drop_deviation:
  "deviation_percent (ingest_real_readings [180, 150, 148, 151, 149] 180) = py 13.56"
  by (simp add: ingest_deviation window_eval float_eval)

lemma tie_10_deviation:
  "deviation_percent (ingest_real_readings [17999, 17999, 17999] 20000) = py 10.01"
  by (simp add: ingest_deviation window_eval float_eval)

lemma tie_5_deviation:
  "deviation_percent (ingest_real_readings [11399, 11399, 11400, 11400, 11399] 12000) = py 5.01"
  by (simp add: ingest_deviation window_eval float_eval)

lemma small_readings:
  "readings (simulate_stream mean_rng 180 2 3) =
     [\<lparr>index = 1, sbc_kNm2 = 180, is_anomaly = False, timestamp = []\<rparr>,
      \<lparr>index = 2, sbc_kNm2 = b64r 140.4, is_anomaly = True, timestamp = []\<rparr>,
      \<lparr>index = 3, sbc_kNm2 = b64r 140.4, is_anomaly = True, timestamp = []\<rparr>]"
  by (simp add: simulate_readings mean_rng_def upto.simps[of 1] Let_def float_eval)

lemma small_deviation:
  "deviation_percent (simulate_stream mean_rng 180 2 3) = py 14.67"
  by (simp add: simulate_deviation simulate_detected small_readings window_eval float_eval)

subsection \<open>The three branches of the policy and the enrichment\<close>

lemmas patch_unfold =
  generate_patch_def DEVIATION_CRITICAL_def DEVIATION_MODERATE_def dict_getitem_def
  IS_CODES_def Let_def split_def

lemma generate_patch_critical:
  "gt dev 20 \<Longrightarrow>
   generate_patch resp loads dev budget =
     Inr \<lparr>RecalibrationPatch.deviation_percent = py_round dev 2, severity = ''CRITICAL'',
          structural_action = action_critical, add_depth_mm = 600, add_piles = 4,
          new_risk_band = ''LOW'', cost_delta_cr = py_round (fmul (Fin budget) (py 0.18)) 2,
          is_code_reference = ''IS 1080, IS 6403; IS 1893 (Part 1)'',
          gemini_rationale = fst (gemini_explanations resp loads dev action_critical ''CRITICAL''),
          site_instructions = snd (gemini_explanations resp loads dev action_critical ''CRITICAL''),
          requires_approval = True\<rparr>"
  by (simp add: patch_unfold action_critical_def)

lemma generate_patch_moderate:
  "\<not> gt dev 20 \<Longrightarrow> gt dev 10 \<Longrightarrow>
   generate_patch resp loads dev budget =
     Inr \<lparr>RecalibrationPatch.deviation_percent = py_round dev 2, severity = ''MODERATE'',
          structural_action = action_moderate, add_depth_mm = 350, add_piles = 2,
          new_risk_band = ''MODERATE'', cost_delta_cr = py_round (fmul (Fin budget) (py 0.09)) 2,
          is_code_reference = ''IS 1080, IS 6403; IS 1893 (Part 1)'',
          gemini_rationale = fst (gemini_explanations resp loads dev action_moderate ''MODERATE''),
          site_instructions = snd (gemini_explanations resp loads dev action_moderate ''MODERATE''),
          requires_approval = True\<rparr>"
  by (simp add: patch_unfold action_moderate_def)

lemma generate_patch_minor:
  assumes "\<not> gt dev 10"
  shows "generate_patch resp loads dev budget =
     Inr \<lparr>RecalibrationPatch.deviation_percent = py_round dev 2, severity = ''MINOR'',
          structural_action = action_minor, add_depth_mm = 150, add_piles = 0,
          new_risk_band = ''LOW-MODERATE'', cost_delta_cr = py_round (fmul (Fin budget) (py 0.03)) 2,
          is_code_reference = ''IS 1080, IS 6403; IS 1893 (Part 1)'',
          gemini_rationale = fst (gemini_explanations resp loads dev action_minor ''MINOR''),
          site_instructions = snd (gemini_explanations resp loads dev action_minor ''MINOR''),
          requires_approval = False\<rparr>"
proof -
  from assms have "\<not> gt dev 20"
    using gt_mono [of dev 20 10] by auto
  with assms show ?thesis
    by (simp add: patch_unfold action_minor_def)
qed

lemma explanations_fail:
  "gemini_try resp loads = Inl e \<Longrightarrow>
   gemini_explanations resp loads dev action sev =
     (JStr (fallback_rationale dev), JStr (fallback_site_instructions action))"
  by (simp add: gemini_explanations_def)

lemma fallback_rationale_nonempty: "fallback_rationale dev \<noteq> []"
  by (simp add: fallback_rationale_def)

lemma fallback_site_instructions_nonempty: "fallback_site_instructions action \<noteq> []"
  by (simp add: fallback_site_instructions_def)

lemma explanations_object:
  "call_gemini_json resp loads = Inr (JObj kvs) \<Longrightarrow>
   gemini_explanations resp loads dev action sev =
     (dict_get kvs ''rationale'' (JStr []), dict_get kvs ''site_instructions'' (JStr []))"
  by (simp add: gemini_explanations_def gemini_try_def)

lemma call_fenced_empty_object:
  "call_gemini_json (Inr ''```json {} ```'') loads_small = Inr (JObj [])"
  apply (simp add: call_gemini_json_def loads_small_def strip_def rstrip_chars_def is_space_def Let_def)
  apply code_simp
  done

lemma call_empty_array:
  "call_gemini_json (Inr ''[]'') loads_small = Inr (JArr [])"
  apply (simp add: call_gemini_json_def loads_small_def strip_def rstrip_chars_def is_space_def Let_def)
  apply code_simp
  done

lemma call_plain_text:
  "call_gemini_json (Inr ''Sorry, no.'') loads_small = Inl ValueError"
  apply (simp add: call_gemini_json_def loads_small_def strip_def rstrip_chars_def is_space_def Let_def)
  apply code_simp
  done

lemma cost_delta_examples:
  "py_round (fmul (Fin 10) (py 0.18)) 2 = py 1.8"
  "py_round (fmul (Fin 10) (py 0.09)) 2 = py 0.9"
  "py_round (fmul (Fin 10) (py 0.03)) 2 = py 0.3"
  "py_round (fmul (Fin (5 / 2)) (py 0.09)) 2 = py 0.22"
  by (simp_all add: float_eval)

lemma is_b64_examples:
  "is_b64 25" "is_b64 20" "is_b64 (- 3)" "is_b64 5" "is_b64 10" "is_b64 (5 / 2)" "is_b64 0"
  "is_b64 180" "is_b64 20000" "is_b64 17999"
  by (simp_all add: float_eval)

lemma is_b64_12_35: "is_b64 (6952431924753203 / 2 ^ 49)"
  by (simp add: float_eval)

section \<open>Deviation detector\<close>

text \<open>
  Claim C2. For every real deviation percentage the alert classification of both entry
  paths is the same function and yields exactly one of NONE, WATCH, WARNING and CRITICAL:
  CRITICAL iff the percentage is above 20, WARNING iff it is above 10 and at most 20, WATCH
  iff it is above 5 and at most 10, NONE iff it is at most 5. The alert level of every
  result of either path is this classification of the result's deviation percentage.
\<close>

theorem alert_level_bands:
  "simulate_alert_level (Fin d) = ingest_alert_level (Fin d)
   \<and> (ingest_alert_level (Fin d) = ''CRITICAL'' \<longleftrightarrow> 20 < d)
   \<and> (ingest_alert_level (Fin d) = ''WARNING'' \<longleftrightarrow> 10 < d \<and> d \<le> 20)
   \<and> (ingest_alert_level (Fin d) = ''WATCH'' \<longleftrightarrow> 5 < d \<and> d \<le> 10)
   \<and> (ingest_alert_level (Fin d) = ''NONE'' \<longleftrightarrow> d \<le> 5)
   \<and> ingest_alert_level (Fin d) \<in> {''NONE'', ''WATCH'', ''WARNING'', ''CRITICAL''}
   \<and> alert_level (simulate_stream rng b s n) =
       simulate_alert_level (deviation_percent (simulate_stream rng b s n))
   \<and> alert_level (ingest_real_readings vs b) =
       ingest_alert_level (deviation_percent (ingest_real_readings vs b))"
  by (simp add: simulate_alert ingest_alert) (simp add: simulate_alert_level_def ingest_alert_level_def)

text \<open>The boundary values 5, 10 and 20 fall into the lower band, in both paths.\<close>

theorem alert_level_bands_witness:
  "ingest_alert_level (Fin 5) = ''NONE'' \<and> simulate_alert_level (Fin 5) = ''NONE''
   \<and> ingest_alert_level (Fin 10) = ''WATCH'' \<and> simulate_alert_level (Fin 10) = ''WATCH''
   \<and> ingest_alert_level (Fin 20) = ''WARNING'' \<and> simulate_alert_level (Fin 20) = ''WARNING''
   \<and> ingest_alert_level (Fin 25) = ''CRITICAL'' \<and> simulate_alert_level (Fin 25) = ''CRITICAL''"
  using alert_level_bands [of 5] alert_level_bands [of 10] alert_level_bands [of 20]
    alert_level_bands [of 25]
  by simp

text \<open>
  Claim C4. In every result of \<open>simulate_stream\<close> and of \<open>ingest_real_readings\<close> (its
  branch for fewer than 3 samples included), \<open>trigger_recal\<close> is true if and only if the
  result's deviation percentage is greater than 5.0, whatever the alert level.
\<close>

theorem trigger_recal_iff_deviation_above_5:
  "trigger_recal (simulate_stream rng b s n) =
     gt (deviation_percent (simulate_stream rng b s n)) 5
   \<and> trigger_recal (ingest_real_readings vs b) =
       gt (deviation_percent (ingest_real_readings vs b)) 5"
  by (simp add: simulate_trigger ingest_trigger)

theorem trigger_recal_iff_deviation_above_5_witness:
  "deviation_percent (ingest_real_readings [180, 150, 148, 151, 149] 180) = py 13.56
   \<and> trigger_recal (ingest_real_readings [180, 150, 148, 151, 149] 180)
   \<and> deviation_percent (simulate_stream mean_rng 180 12 0) = Fin 0
   \<and> \<not> trigger_recal (simulate_stream mean_rng 180 12 0)"
proof -
  have b: "deviation_percent (simulate_stream mean_rng 180 12 0) = Fin 0"
    by (simp add: simulate_deviation simulate_detected py_round_fin_zero)
  from trigger_recal_iff_deviation_above_5
         [of mean_rng 180 12 0 "[180, 150, 148, 151, 149]"]
  show ?thesis
    unfolding drop_deviation b by (simp add: float_eval)
qed

text \<open>
  Claim C6. For every sequence of raw values with fewer than 3 entries and every
  baseline, \<open>ingest_real_readings\<close> returns a result with \<open>deviation_detected\<close> false,
  deviation percentage 0.0, alert level NONE and \<open>trigger_recal\<close> false; the readings
  carry the supplied values.
\<close>

theorem ingest_short_sequence:
  assumes "length raw_values < 3"
  shows "deviation_detected (ingest_real_readings raw_values design_sbc) = False
   \<and> deviation_percent (ingest_real_readings raw_values design_sbc) = Fin 0
   \<and> alert_level (ingest_real_readings raw_values design_sbc) = ''NONE''
   \<and> trigger_recal (ingest_real_readings raw_values design_sbc) = False
   \<and> map sbc_kNm2 (readings (ingest_real_readings raw_values design_sbc)) = raw_values"
  using assms by (simp add: ingest_readings_values) (simp add: ingest_real_readings_def Let_def)

theorem ingest_short_sequence_witness:
  "length [10, 900 :: real] < 3
   \<and> deviation_detected (ingest_real_readings [10, 900] 180) = False
   \<and> deviation_percent (ingest_real_readings [10, 900] 180) = Fin 0
   \<and> alert_level (ingest_real_readings [10, 900] 180) = ''NONE''
   \<and> trigger_recal (ingest_real_readings [10, 900] 180) = False
   \<and> map sbc_kNm2 (readings (ingest_real_readings [10, 900] 180)) = [10, 900]"
proof -
  have h: "length [10, 900 :: real] < 3" by simp
  from ingest_short_sequence [OF h, of 180] h show ?thesis by simp
qed

text \<open>
  Claim C7. Every result of \<open>simulate_stream\<close> and of \<open>ingest_real_readings\<close> satisfies the
  invariant that \<open>trigger_recal\<close> implies \<open>deviation_detected\<close>.
\<close>

theorem trigger_implies_detected:
  "(trigger_recal (simulate_stream rng b s n) \<longrightarrow> deviation_detected (simulate_stream rng b s n))
   \<and> (trigger_recal (ingest_real_readings vs b) \<longrightarrow> deviation_detected (ingest_real_readings vs b))"
proof
  show "trigger_recal (simulate_stream rng b s n) \<longrightarrow> deviation_detected (simulate_stream rng b s n)"
    by (simp add: simulate_stream_def Let_def py_round_fin_zero split: prod.splits)
next
  show "trigger_recal (ingest_real_readings vs b) \<longrightarrow> deviation_detected (ingest_real_readings vs b)"
  proof (cases "deviation_percent (ingest_real_readings vs b)")
    case (Fin a)
    then show ?thesis by (simp add: ingest_trigger ingest_detected)
  next
    case PInf
    then show ?thesis by (simp add: ingest_trigger ingest_detected)
  next
    case NInf
    then show ?thesis by (simp add: ingest_trigger ingest_detected)
  next
    case NaN
    then show ?thesis by (simp add: ingest_trigger ingest_detected)
  qed
qed

theorem trigger_implies_detected_witness:
  "trigger_recal (simulate_stream mean_rng 180 2 3)
   \<and> deviation_detected (simulate_stream mean_rng 180 2 3)
   \<and> trigger_recal (ingest_real_readings [180, 150, 148, 151, 149] 180)
   \<and> deviation_detected (ingest_real_readings [180, 150, 148, 151, 149] 180)"
proof -
  have a: "trigger_recal (simulate_stream mean_rng 180 2 3)"
    by (simp add: simulate_trigger small_deviation float_eval)
  have b: "trigger_recal (ingest_real_readings [180, 150, 148, 151, 149] 180)"
    by (simp add: ingest_trigger drop_deviation float_eval)
  from trigger_implies_detected [of mean_rng 180 2 3 "[180, 150, 148, 151, 149]"] a b
  show ?thesis by blast
qed

section \<open>Recalibration policy\<close>

text \<open>
  Claim C1. For every finite float as deviation percentage and as budget, whatever the
  enrichment does, \<open>generate_patch\<close> returns a patch and raises nothing, and the patch
  belongs to exactly one tier: above 20 it is CRITICAL with 600 mm, 4 piles, risk band LOW,
  cost fraction 0.18 and approval required; above 10 and at most 20 it is MODERATE with
  350 mm, 2 piles, risk band MODERATE, fraction 0.09 and approval required; at most 10
  (zero and negative values included) it is MINOR with 150 mm, 0 piles, risk band
  LOW-MODERATE, fraction 0.03 and no approval required. The cost delta is the float
  product of the budget and the fraction, rounded by Python to 2 decimal places.
\<close>

theorem generate_patch_tiers:
  assumes "is_b64 d" and "is_b64 budget"
  shows "(20 < d \<longrightarrow>
      (case generate_patch resp loads (Fin d) budget of
         Inl e \<Rightarrow> False
       | Inr p \<Rightarrow> severity p = ''CRITICAL'' \<and> add_depth_mm p = 600 \<and> add_piles p = 4
           \<and> new_risk_band p = ''LOW''
           \<and> cost_delta_cr p = py_round (fmul (Fin budget) (py 0.18)) 2
           \<and> requires_approval p = True))
   \<and> (10 < d \<and> d \<le> 20 \<longrightarrow>
      (case generate_patch resp loads (Fin d) budget of
         Inl e \<Rightarrow> False
       | Inr p \<Rightarrow> severity p = ''MODERATE'' \<and> add_depth_mm p = 350 \<and> add_piles p = 2
           \<and> new_risk_band p = ''MODERATE''
           \<and> cost_delta_cr p = py_round (fmul (Fin budget) (py 0.09)) 2
           \<and> requires_approval p = True))
   \<and> (d \<le> 10 \<longrightarrow>
      (case generate_patch resp loads (Fin d) budget of
         Inl e \<Rightarrow> False
       | Inr p \<Rightarrow> severity p = ''MINOR'' \<and> add_depth_mm p = 150 \<and> add_piles p = 0
           \<and> new_risk_band p = ''LOW-MODERATE''
           \<and> cost_delta_cr p = py_round (fmul (Fin budget) (py 0.03)) 2
           \<and> requires_approval p = False))"
proof (intro conjI impI)
  assume "20 < d"
  then have "gt (Fin d) 20" by simp
  from generate_patch_critical [OF this]
  show "case generate_patch resp loads (Fin d) budget of
         Inl e \<Rightarrow> False
       | Inr p \<Rightarrow> severity p = ''CRITICAL'' \<and> add_depth_mm p = 600 \<and> add_piles p = 4
           \<and> new_risk_band p = ''LOW''
           \<and> cost_delta_cr p = py_round (fmul (Fin budget) (py 0.18)) 2
           \<and> requires_approval p = True"
    by simp
next
  assume "10 < d \<and> d \<le> 20"
  then have "\<not> gt (Fin d) 20" "gt (Fin d) 10" by simp_all
  from generate_patch_moderate [OF this]
  show "case generate_patch resp loads (Fin d) budget of
         Inl e \<Rightarrow> False
       | Inr p \<Rightarrow> severity p = ''MODERATE'' \<and> add_depth_mm p = 350 \<and> add_piles p = 2
           \<and> new_risk_band p = ''MODERATE''
           \<and> cost_delta_cr p = py_round (fmul (Fin budget) (py 0.09)) 2
           \<and> requires_approval p = True"
    by simp
next
  assume "d \<le> 10"
  then have "\<not> gt (Fin d) 10" by simp
  from generate_patch_minor [OF this]
  show "case generate_patch resp loads (Fin d) budget of
         Inl e \<Rightarrow> False
       | Inr p \<Rightarrow> severity p = ''MINOR'' \<and> add_depth_mm p = 150 \<and> add_piles p = 0
           \<and> new_risk_band p = ''LOW-MODERATE''
           \<and> cost_delta_cr p = py_round (fmul (Fin budget) (py 0.03)) 2
           \<and> requires_approval p = False"
    by simp
qed

text \<open>At the budget 2.5 the product \<open>2.5 * 0.03\<close> lies below 0.075, and the cost delta of the
  MINOR tier is 0.07.\<close>

theorem generate_patch_tiers_witness:
  "is_b64 25 \<and> is_b64 20 \<and> is_b64 (- 3) \<and> is_b64 5 \<and> is_b64 10 \<and> is_b64 (5 / 2)
   \<and> (case generate_patch (Inl (ServiceError ''503'')) loads_small (Fin 25) 10 of
      Inl e \<Rightarrow> False
    | Inr p \<Rightarrow> severity p = ''CRITICAL'' \<and> add_depth_mm p = 600 \<and> add_piles p = 4
        \<and> new_risk_band p = ''LOW'' \<and> cost_delta_cr p = py (18 / 10)
        \<and> requires_approval p = True)
   \<and> (case generate_patch (Inl (ServiceError ''503'')) loads_small (Fin 20) 10 of
      Inl e \<Rightarrow> False
    | Inr p \<Rightarrow> severity p = ''MODERATE'' \<and> add_depth_mm p = 350 \<and> add_piles p = 2
        \<and> new_risk_band p = ''MODERATE'' \<and> cost_delta_cr p = py (9 / 10)
        \<and> requires_approval p = True)
   \<and> (case generate_patch (Inl (ServiceError ''503'')) loads_small (Fin (- 3)) 10 of
      Inl e \<Rightarrow> False
    | Inr p \<Rightarrow> severity p = ''MINOR'' \<and> add_depth_mm p = 150 \<and> add_piles p = 0
        \<and> new_risk_band p = ''LOW-MODERATE'' \<and> cost_delta_cr p = py (3 / 10)
        \<and> requires_approval p = False)
   \<and> (case generate_patch (Inl (ServiceError ''503'')) loads_small (Fin 5) (5 / 2) of
      Inl e \<Rightarrow> False
    | Inr p \<Rightarrow> severity p = ''MINOR'' \<and> add_depth_mm p = 150 \<and> add_piles p = 0
        \<and> new_risk_band p = ''LOW-MODERATE'' \<and> cost_delta_cr p = py (7 / 100)
        \<and> requires_approval p = False)"
proof -
  note h = is_b64_examples
  have c: "py_round (fmul (Fin 10) (py 0.18)) 2 = py (18 / 10)"
    "py_round (fmul (Fin 10) (py 0.09)) 2 = py (9 / 10)"
    "py_round (fmul (Fin 10) (py 0.03)) 2 = py (3 / 10)"
    "py_round (fmul (Fin (5 / 2)) (py 0.03)) 2 = py (7 / 100)"
    by (simp_all add: float_eval)
  from
    generate_patch_tiers
      [OF h(1) h(5), where resp = "Inl (ServiceError ''503'')" and loads = loads_small]
    generate_patch_tiers
      [OF h(2) h(5), where resp = "Inl (ServiceError ''503'')" and loads = loads_small]
    generate_patch_tiers
      [OF h(3) h(5), where resp = "Inl (ServiceError ''503'')" and loads = loads_small]
    generate_patch_tiers
      [OF h(4) h(6), where resp = "Inl (ServiceError ''503'')" and loads = loads_small]
  show ?thesis
    unfolding c using h by (auto split: sum.splits)
qed

text \<open>
  Claim C8. If the \<open>try\<close> block of the enrichment ends in any exception (the service
  call raises, the response is not JSON, or the parsed value has no method \<open>get\<close>), then
  for every finite float as deviation percentage and as budget \<open>generate_patch\<close> still
  returns a patch: its severity, depth, piles, risk band, cost delta and approval flag are
  those of the tier table, and its rationale and site instructions are the non-empty
  fallback strings, which depend on the deviation and the action text only.
\<close>

theorem enrichment_failure_falls_back:
  assumes "gemini_try resp loads = Inl e" and "is_b64 d" and "is_b64 budget"
  shows "case generate_patch resp loads (Fin d) budget of
           Inl err \<Rightarrow> False
         | Inr p \<Rightarrow>
             (severity p, add_depth_mm p, add_piles p, new_risk_band p, cost_delta_cr p,
              requires_approval p) = spec_tier_fields d budget
             \<and> gemini_rationale p = JStr (fallback_rationale (Fin d))
             \<and> site_instructions p = JStr (fallback_site_instructions (structural_action p))
             \<and> fallback_rationale (Fin d) \<noteq> []
             \<and> fallback_site_instructions (structural_action p) \<noteq> []"
proof -
  note f = assms(1)
  consider "20 < d" | "10 < d \<and> d \<le> 20" | "d \<le> 10" by linarith
  then show ?thesis
  proof cases
    case 1
    then have "gt (Fin d) 20" by simp
    from generate_patch_critical [OF this] 1 show ?thesis
      by (simp add: explanations_fail [OF f] spec_tier_fields_def
          fallback_rationale_nonempty fallback_site_instructions_nonempty)
  next
    case 2
    then have "\<not> gt (Fin d) 20" "gt (Fin d) 10" by simp_all
    from generate_patch_moderate [OF this] 2 show ?thesis
      by (simp add: explanations_fail [OF f] spec_tier_fields_def
          fallback_rationale_nonempty fallback_site_instructions_nonempty)
  next
    case 3
    then have "\<not> gt (Fin d) 10" by simp
    from generate_patch_minor [OF this] 3 show ?thesis
      by (simp add: explanations_fail [OF f] spec_tier_fields_def
          fallback_rationale_nonempty fallback_site_instructions_nonempty)
  qed
qed

text \<open>The float of the literal \<open>12.35\<close> is 6952431924753203 / 2 ^ 49; the fallback rationale
  prints it as 12.3.\<close>

theorem enrichment_failure_falls_back_witness:
  "gemini_try (Inl (ServiceError ''503'')) loads_small = Inl (ServiceError ''503'')
   \<and> gemini_try (Inr ''Sorry, no.'') loads_small = Inl ValueError
   \<and> gemini_try (Inr ''[]'') loads_small = Inl AttributeError
   \<and> py (1235 / 100) = Fin (6952431924753203 / 2 ^ 49)
   \<and> is_b64 (6952431924753203 / 2 ^ 49) \<and> is_b64 (5 / 2) \<and> is_b64 25 \<and> is_b64 5
   \<and> (case generate_patch (Inl (ServiceError ''503'')) loads_small
              (Fin (6952431924753203 / 2 ^ 49)) (5 / 2) of
         Inl err \<Rightarrow> False
       | Inr p \<Rightarrow>
           severity p = ''MODERATE'' \<and> add_depth_mm p = 350 \<and> add_piles p = 2
           \<and> new_risk_band p = ''MODERATE'' \<and> cost_delta_cr p = py (22 / 100)
           \<and> requires_approval p = True
           \<and> gemini_rationale p =
               JStr (''A 12.3% SBC drop reduces the safety factor below acceptable IS code limits. ''
                 @ ''The proposed depth increase and pile addition restore the required bearing capacity per IS 6403. ''
                 @ ''Immediate implementation prevents potential differential settlement and structural distress.'')
           \<and> site_instructions p = JStr (fallback_site_instructions (structural_action p)))
   \<and> (case generate_patch (Inr ''Sorry, no.'') loads_small (Fin 25) (5 / 2) of
         Inl err \<Rightarrow> False
       | Inr p \<Rightarrow>
           severity p = ''CRITICAL'' \<and> add_depth_mm p = 600 \<and> add_piles p = 4
           \<and> cost_delta_cr p = py (45 / 100)
           \<and> gemini_rationale p = JStr (fallback_rationale (Fin 25)))
   \<and> (case generate_patch (Inr ''[]'') loads_small (Fin 5) (5 / 2) of
         Inl err \<Rightarrow> False
       | Inr p \<Rightarrow>
           severity p = ''MINOR'' \<and> add_depth_mm p = 150 \<and> add_piles p = 0
           \<and> cost_delta_cr p = py (7 / 100)
           \<and> gemini_rationale p = JStr (fallback_rationale (Fin 5)))"
proof -
  have a: "gemini_try (Inl (ServiceError ''503'')) loads_small = Inl (ServiceError ''503'')"
    by (simp add: gemini_try_def call_gemini_json_def)
  have b: "gemini_try (Inr ''Sorry, no.'') loads_small = Inl ValueError"
    by (simp add: gemini_try_def call_plain_text)
  have c: "gemini_try (Inr ''[]'') loads_small = Inl AttributeError"
    by (simp add: gemini_try_def call_empty_array)
  have l: "py (1235 / 100) = Fin (6952431924753203 / 2 ^ 49)"
    by (simp add: float_eval)
  note h = is_b64_examples is_b64_12_35
  have m: "(10::real) < 6952431924753203 / 2 ^ 49 \<and> (6952431924753203 / 2 ^ 49 :: real) \<le> 20"
    by simp
  have t: "spec_tier_fields (6952431924753203 / 2 ^ 49) (5 / 2) =
        (''MODERATE'', 350, 2, ''MODERATE'', py (22 / 100), True)"
      "spec_tier_fields 25 (5 / 2) = (''CRITICAL'', 600, 4, ''LOW'', py (45 / 100), True)"
      "spec_tier_fields 5 (5 / 2) = (''MINOR'', 150, 0, ''LOW-MODERATE'', py (7 / 100), False)"
    using m by (simp_all add: spec_tier_fields_def float_eval)
  have r: "fallback_rationale (Fin (6952431924753203 / 2 ^ 49)) =
         ''A 12.3% SBC drop reduces the safety factor below acceptable IS code limits. ''
         @ ''The proposed depth increase and pile addition restore the required bearing capacity per IS 6403. ''
         @ ''Immediate implementation prevents potential differential settlement and structural distress.''"
    by (simp add: fallback_rationale_def round_half_even_def show_nat.simps)
  from enrichment_failure_falls_back [OF a is_b64_12_35 h(6)]
    enrichment_failure_falls_back [OF b h(1) h(6)]
    enrichment_failure_falls_back [OF c h(4) h(6)]
  show ?thesis
    unfolding t r using a b c l h by (auto split: sum.splits)
qed

text \<open>
  Claim C10. If the enrichment call succeeds with a parsed JSON object, a missing key
  \<open>rationale\<close> or \<open>site_instructions\<close> leaves the corresponding field of the patch the
  empty string, not the fallback text. A patch with both fields empty is reachable for
  every deviation and budget although the service did not fail: a response holding the
  empty object, fenced or not, produces one.
\<close>

theorem missing_keys_give_empty_strings:
  assumes "call_gemini_json resp loads = Inr (JObj kvs)"
  shows "(case generate_patch resp loads dev budget of
            Inl err \<Rightarrow> False
          | Inr p \<Rightarrow>
              (map_of kvs ''rationale'' = None \<longrightarrow>
                 gemini_rationale p = JStr []
                 \<and> gemini_rationale p \<noteq> JStr (fallback_rationale dev))
              \<and> (map_of kvs ''site_instructions'' = None \<longrightarrow>
                 site_instructions p = JStr []
                 \<and> site_instructions p \<noteq> JStr (fallback_site_instructions (structural_action p))))
         \<and> (\<exists>resp' loads' kvs'.
               call_gemini_json resp' loads' = Inr (JObj kvs')
               \<and> (case generate_patch resp' loads' dev budget of
                     Inl err \<Rightarrow> False
                   | Inr p \<Rightarrow> gemini_rationale p = JStr [] \<and> site_instructions p = JStr []))"
proof -
  have key: "\<And>resp loads kvs.
    call_gemini_json resp loads = Inr (JObj kvs) \<Longrightarrow>
    (case generate_patch resp loads dev budget of
       Inl err \<Rightarrow> False
     | Inr p \<Rightarrow>
         gemini_rationale p = dict_get kvs ''rationale'' (JStr [])
         \<and> site_instructions p = dict_get kvs ''site_instructions'' (JStr []))"
  proof -
    fix resp loads kvs
    assume ok: "call_gemini_json resp loads = Inr (JObj kvs)"
    consider "gt dev 20" | "\<not> gt dev 20 \<and> gt dev 10" | "\<not> gt dev 10" by blast
    then show "case generate_patch resp loads dev budget of
       Inl err \<Rightarrow> False
     | Inr p \<Rightarrow>
         gemini_rationale p = dict_get kvs ''rationale'' (JStr [])
         \<and> site_instructions p = dict_get kvs ''site_instructions'' (JStr [])"
    proof cases
      case 1
      from generate_patch_critical [OF this] show ?thesis
        by (simp add: explanations_object [OF ok])
    next
      case 2
      then have "\<not> gt dev 20" "gt dev 10" by simp_all
      from generate_patch_moderate [OF this] show ?thesis
        by (simp add: explanations_object [OF ok])
    next
      case 3
      from generate_patch_minor [OF this] show ?thesis
        by (simp add: explanations_object [OF ok])
    qed
  qed
  have first: "case generate_patch resp loads dev budget of
            Inl err \<Rightarrow> False
          | Inr p \<Rightarrow>
              (map_of kvs ''rationale'' = None \<longrightarrow>
                 gemini_rationale p = JStr []
                 \<and> gemini_rationale p \<noteq> JStr (fallback_rationale dev))
              \<and> (map_of kvs ''site_instructions'' = None \<longrightarrow>
                 site_instructions p = JStr []
                 \<and> site_instructions p \<noteq> JStr (fallback_site_instructions (structural_action p)))"
    using key [OF assms] fallback_rationale_nonempty [of dev, THEN not_sym]
      fallback_site_instructions_nonempty [THEN not_sym]
    by (auto simp add: dict_get_def split: sum.splits)
  have second: "case generate_patch (Inr ''```json {} ```'') loads_small dev budget of
                     Inl err \<Rightarrow> False
                   | Inr p \<Rightarrow> gemini_rationale p = JStr [] \<and> site_instructions p = JStr []"
    using key [OF call_fenced_empty_object]
    by (auto simp add: dict_get_def split: sum.splits)
  from first second call_fenced_empty_object show ?thesis
    by blast
qed

theorem missing_keys_give_empty_strings_witness:
  "call_gemini_json (Inr ''```json {} ```'') loads_small = Inr (JObj [])
   \<and> map_of ([] :: (string \<times> json) list) ''rationale'' = None
   \<and> map_of ([] :: (string \<times> json) list) ''site_instructions'' = None
   \<and> (case generate_patch (Inr ''```json {} ```'') loads_small (Fin 15) 10 of
         Inl err \<Rightarrow> False
       | Inr p \<Rightarrow> gemini_rationale p = JStr [] \<and> site_instructions p = JStr []
           \<and> severity p = ''MODERATE'')"
proof -
  have sev: "case generate_patch (Inr ''```json {} ```'') loads_small (Fin 15) 10 of
         Inl err \<Rightarrow> False | Inr p \<Rightarrow> severity p = ''MODERATE''"
    using generate_patch_moderate [of "Fin 15" "Inr ''```json {} ```''" loads_small 10]
    by simp
  from missing_keys_give_empty_strings
         [OF call_fenced_empty_object, where dev = "Fin 15" and budget = 10]
    sev call_fenced_empty_object
  show ?thesis
    by (auto split: sum.splits)
qed

section \<open>Deviation computation and the scenarios\<close>

text \<open>
  Claim C3. Wherever the averaging step is reached (the raw-value path with at least 3
  samples; the simulated path with a degradation start \<open>S\<close> such that \<open>1 \<le> S \<le> N\<close>), for
  floats as readings and as baseline, the deviation percentage of the result is
  \<open>(B - recent_avg) / B * 100\<close> rounded to 2 decimal places, where \<open>recent_avg\<close> is the mean
  of the last 5 stored readings, or of all of them if fewer than 5 exist; mean, deviation
  and rounding are those of the runtime (numpy's rounding on the raw-value path,
  Python's on the simulated path). The raw readings 180, 179, 181, 178, 180 against the
  baseline 180 give the average 179.6, the deviation 0.22, the alert level NONE and no
  trigger.
\<close>

theorem deviation_is_windowed_mean:
  "(3 \<le> length vs \<and> list_all is_b64 vs \<and> is_b64 B \<longrightarrow>
      deviation_percent (ingest_real_readings vs B) =
        np_round (spec_deviation B (spec_recent_avg vs)) 2)
   \<and> (1 \<le> S \<and> S \<le> N \<and> is_b64 B \<longrightarrow>
      deviation_percent (simulate_stream rng B S N) =
        py_round
          (spec_deviation B
             (spec_recent_avg (map sbc_kNm2 (readings (simulate_stream rng B S N))))) 2)
   \<and> np_mean (slice_from [180, 179, 181, 178, 180] (- 5)) = py (1796 / 10)
   \<and> spec_recent_avg [180, 179, 181, 178, 180] = py (1796 / 10)
   \<and> deviation_percent (ingest_real_readings [180, 179, 181, 178, 180] 180) = py (22 / 100)
   \<and> alert_level (ingest_real_readings [180, 179, 181, 178, 180] 180) = ''NONE''
   \<and> trigger_recal (ingest_real_readings [180, 179, 181, 178, 180] 180) = False"
proof (intro conjI impI)
  assume "3 \<le> length vs \<and> list_all is_b64 vs \<and> is_b64 B"
  then have "3 \<le> length vs" by simp
  then show "deviation_percent (ingest_real_readings vs B) =
        np_round (spec_deviation B (spec_recent_avg vs)) 2"
    by (rule ingest_deviation)
next
  assume "1 \<le> S \<and> S \<le> N \<and> is_b64 B"
  then show "deviation_percent (simulate_stream rng B S N) =
        py_round
          (spec_deviation B
             (spec_recent_avg (map sbc_kNm2 (readings (simulate_stream rng B S N))))) 2"
    by (simp add: simulate_deviation_window)
next
  show "np_mean (slice_from [180, 179, 181, 178, 180] (- 5)) = py (1796 / 10)"
    using normal_mean by (simp add: slice_from_last_5 spec_recent_avg_def)
next
  show "spec_recent_avg [180, 179, 181, 178, 180] = py (1796 / 10)"
    using normal_mean by simp
next
  show "deviation_percent (ingest_real_readings [180, 179, 181, 178, 180] 180) = py (22 / 100)"
    using normal_deviation by simp
next
  show "alert_level (ingest_real_readings [180, 179, 181, 178, 180] 180) = ''NONE''"
    by (simp add: ingest_alert normal_deviation ingest_alert_level_def float_eval)
next
  show "trigger_recal (ingest_real_readings [180, 179, 181, 178, 180] 180) = False"
    by (simp add: ingest_trigger normal_deviation float_eval)
qed

text \<open>
  At the readings 17999, 17999, 17999 against the baseline 20000 the exact deviation is
  10.005; the floats give 10.01 and the alert level WARNING. In the simulated path with
  the baseline 180 and every draw at its mean the deviation is 14.67.
\<close>

theorem deviation_is_windowed_mean_witness:
  "3 \<le> length [17999, 17999, 17999 :: real]
   \<and> list_all is_b64 [17999, 17999, 17999] \<and> is_b64 20000
   \<and> np_round (spec_deviation 20000 (spec_recent_avg [17999, 17999, 17999])) 2 = py (1001 / 100)
   \<and> deviation_percent (ingest_real_readings [17999, 17999, 17999] 20000) = py (1001 / 100)
   \<and> alert_level (ingest_real_readings [17999, 17999, 17999] 20000) = ''WARNING''
   \<and> (1::int) \<le> 2 \<and> (2::int) \<le> 3 \<and> is_b64 180
   \<and> map sbc_kNm2 (readings (simulate_stream mean_rng 180 2 3)) =
        [180, b64r (702 / 5), b64r (702 / 5)]
   \<and> py_round (spec_deviation 180 (spec_recent_avg [180, b64r (702 / 5), b64r (702 / 5)])) 2 =
        py (1467 / 100)
   \<and> deviation_percent (simulate_stream mean_rng 180 2 3) = py (1467 / 100)"
proof -
  note h = is_b64_examples
  have a: "np_round (spec_deviation 20000 (spec_recent_avg [17999, 17999, 17999])) 2 =
             py (1001 / 100)"
    by (simp add: window_eval float_eval)
  have r: "map sbc_kNm2 (readings (simulate_stream mean_rng 180 2 3)) =
             [180, b64r (702 / 5), b64r (702 / 5)]"
    using small_readings by simp
  have b: "py_round (spec_deviation 180 (spec_recent_avg [180, b64r (702 / 5), b64r (702 / 5)])) 2 =
             py (1467 / 100)"
    by (simp add: window_eval float_eval)
  have l: "list_all is_b64 [17999, 17999, 17999]"
    using h by simp
  have w: "ingest_alert_level (py (1001 / 100)) = ''WARNING''"
    by (simp add: ingest_alert_level_def float_eval)
  from deviation_is_windowed_mean
         [where vs = "[17999, 17999, 17999]" and B = 20000 and S = 2 and N = 3
            and rng = mean_rng]
    deviation_is_windowed_mean
         [where vs = "[17999, 17999, 17999]" and B = 180 and S = 2 and N = 3
            and rng = mean_rng]
  have "deviation_percent (ingest_real_readings [17999, 17999, 17999] 20000) = py (1001 / 100)"
    and "deviation_percent (simulate_stream mean_rng 180 2 3) = py (1467 / 100)"
    unfolding r a b using h l by simp_all
  then show ?thesis
    using a b r l h w by (simp add: ingest_alert)
qed

text \<open>
  Claim C5, as stated, fails: for the raw readings 180, 150, 148, 151, 149 against the
  baseline 180 the mean of the last five readings is 155.6, not 149.6, and the deviation
  is 13.56 percent, not 16.89.
\<close>

theorem scenario_drop_counterexample:
  "np_mean (slice_from [180, 150, 148, 151, 149] (- 5)) = py (1556 / 10)
   \<and> np_mean (slice_from [180, 150, 148, 151, 149] (- 5)) \<noteq> py (1496 / 10)
   \<and> deviation_percent (ingest_real_readings [180, 150, 148, 151, 149] 180) = py (1356 / 100)
   \<and> deviation_percent (ingest_real_readings [180, 150, 148, 151, 149] 180) \<noteq> py (1689 / 100)"
proof -
  have a: "np_mean (slice_from [180, 150, 148, 151, 149] (- 5)) = py (1556 / 10)"
    using drop_mean by (simp add: slice_from_last_5 spec_recent_avg_def)
  have b: "py (1556 / 10) \<noteq> py (1496 / 10)" "py (1356 / 100) \<noteq> py (1689 / 100)"
    by (simp_all add: float_eval)
  have c: "deviation_percent (ingest_real_readings [180, 150, 148, 151, 149] 180) = py (1356 / 100)"
    using drop_deviation by simp
  show ?thesis
    unfolding a c using b by simp
qed

text \<open>
  Claim C5, amended. For the raw readings 180, 150, 148, 151, 149 against the baseline 180
  the detector computes the average 155.6 and the deviation 13.56 percent, with alert
  level WARNING and the trigger set; the policy answers 13.56 as well as 16.89 with the
  severity MODERATE, 350 mm of added depth and 2 added piles.
\<close>

theorem scenario_drop_amended:
  "np_mean (slice_from [180, 150, 148, 151, 149] (- 5)) = py (1556 / 10)
   \<and> deviation_percent (ingest_real_readings [180, 150, 148, 151, 149] 180) = py (1356 / 100)
   \<and> alert_level (ingest_real_readings [180, 150, 148, 151, 149] 180) = ''WARNING''
   \<and> trigger_recal (ingest_real_readings [180, 150, 148, 151, 149] 180) = True
   \<and> (case generate_patch resp loads (py (1356 / 100)) budget of
         Inl e \<Rightarrow> False
       | Inr p \<Rightarrow> severity p = ''MODERATE'' \<and> add_depth_mm p = 350 \<and> add_piles p = 2)
   \<and> (case generate_patch resp loads (py (1689 / 100)) budget of
         Inl e \<Rightarrow> False
       | Inr p \<Rightarrow> severity p = ''MODERATE'' \<and> add_depth_mm p = 350 \<and> add_piles p = 2)"
proof -
  have "\<not> gt (py (1356 / 100)) 20" "gt (py (1356 / 100)) 10"
    by (simp_all add: float_eval)
  from generate_patch_moderate [OF this, of resp loads budget]
  have a: "case generate_patch resp loads (py (1356 / 100)) budget of
         Inl e \<Rightarrow> False
       | Inr p \<Rightarrow> severity p = ''MODERATE'' \<and> add_depth_mm p = 350 \<and> add_piles p = 2"
    by simp
  have "\<not> gt (py (1689 / 100)) 20" "gt (py (1689 / 100)) 10"
    by (simp_all add: float_eval)
  from generate_patch_moderate [OF this, of resp loads budget]
  have b: "case generate_patch resp loads (py (1689 / 100)) budget of
         Inl e \<Rightarrow> False
       | Inr p \<Rightarrow> severity p = ''MODERATE'' \<and> add_depth_mm p = 350 \<and> add_piles p = 2"
    by simp
  have c: "np_mean (slice_from [180, 150, 148, 151, 149] (- 5)) = py (1556 / 10)"
    using drop_mean by (simp add: slice_from_last_5 spec_recent_avg_def)
  have d: "deviation_percent (ingest_real_readings [180, 150, 148, 151, 149] 180) = py (1356 / 100)"
    using drop_deviation by simp
  have e: "alert_level (ingest_real_readings [180, 150, 148, 151, 149] 180) = ''WARNING''"
    by (simp add: ingest_alert drop_deviation ingest_alert_level_def float_eval)
  have f: "trigger_recal (ingest_real_readings [180, 150, 148, 151, 149] 180) = True"
    by (simp add: ingest_trigger drop_deviation float_eval)
  from a b c d e f show ?thesis
    by blast
qed

theorem scenario_drop_amended_witness:
  "(case generate_patch (Inl (ServiceError ''503'')) loads_small (py (1356 / 100)) 10 of
         Inl e \<Rightarrow> False
       | Inr p \<Rightarrow> severity p = ''MODERATE'' \<and> add_depth_mm p = 350 \<and> add_piles p = 2)
   \<and> (case generate_patch (Inl (ServiceError ''503'')) loads_small (py (1689 / 100)) 10 of
         Inl e \<Rightarrow> False
       | Inr p \<Rightarrow> severity p = ''MODERATE'' \<and> add_depth_mm p = 350 \<and> add_piles p = 2)"
  using scenario_drop_amended
          [where resp = "Inl (ServiceError ''503'')" and loads = loads_small and budget = 10]
  by blast

section \<open>Inputs outside the contract of the reading generator\<close>

lemma simulate_indices: "map index (readings (simulate_stream rng b s n)) = [1..n]"
  by (simp add: simulate_readings stream_loop_readings o_def)

lemma simulate_anomaly_flags:
  "r \<in> set (readings (simulate_stream rng b s n)) \<Longrightarrow> is_anomaly r = (s \<le> index r)"
  by (auto simp add: simulate_readings stream_loop_readings)

lemma simulate_not_detected:
  assumes "\<not> (1 \<le> n \<and> s \<le> n)"
  shows "deviation_percent (simulate_stream rng b s n) = Fin 0
    \<and> alert_level (simulate_stream rng b s n) = ''NONE''
    \<and> trigger_recal (simulate_stream rng b s n) = False"
proof -
  from assms have nd: "\<not> deviation_detected (simulate_stream rng b s n)"
    by (simp add: simulate_detected)
  then have d: "deviation_percent (simulate_stream rng b s n) = Fin 0"
    by (simp add: simulate_deviation py_round_fin_zero)
  then show ?thesis
    by (simp add: simulate_alert simulate_trigger simulate_alert_level_def)
qed

lemma truediv_zero: "np_truediv x (Fin 0) \<in> {PInf, NInf, NaN}"
  by (cases x) simp_all

lemma fmul_100_not_finite: "x \<in> {PInf, NInf, NaN} \<Longrightarrow> fmul x (Fin 100) \<in> {PInf, NInf, NaN}"
  by auto

lemma py_round_not_finite: "x \<in> {PInf, NInf, NaN} \<Longrightarrow> py_round x n \<in> {PInf, NInf, NaN}"
  by auto

lemma simulate_zero_baseline:
  assumes "1 \<le> n" "s \<le> n"
  shows "deviation_percent (simulate_stream rng 0 s n) \<in> {PInf, NInf, NaN}"
proof -
  from assms have det: "deviation_detected (simulate_stream rng 0 s n)"
    by (simp add: simulate_detected)
  have "deviation_percent (simulate_stream rng 0 s n) =
      py_round (fmul (np_truediv
        (fsub (Fin 0) (spec_recent_avg (map sbc_kNm2 (readings (simulate_stream rng 0 s n)))))
        (Fin 0)) (Fin 100)) 2"
    using det by (simp add: simulate_deviation spec_deviation_def)
  then show ?thesis
    using py_round_not_finite [OF fmul_100_not_finite [OF truediv_zero]] by simp
qed

lemma simulate_no_readings:
  assumes "n \<le> 0"
  shows "simulate_stream rng b s n =
          \<lparr>readings = [], deviation_detected = False, deviation_percent = Fin 0,
           alert_level = ''NONE'', trigger_recal = False\<rparr>"
  using assms
  by (simp add: simulate_stream_def Let_def py_round_fin_zero simulate_alert_level_def)

text \<open>
  Claim C9, as stated, fails: \<open>simulate_stream\<close> checks none of its arguments. With a
  total of 0 or -4 it returns a result without readings; with a degradation start above
  the total or below 1, with a negative baseline and with the baseline 0 it returns a
  result as well.
\<close>

theorem simulate_stream_no_validation_counterexample:
  "simulate_stream mean_rng 180 12 0 =
     \<lparr>readings = [], deviation_detected = False, deviation_percent = Fin 0,
      alert_level = ''NONE'', trigger_recal = False\<rparr>
   \<and> simulate_stream mean_rng 180 1 (- 4) =
     \<lparr>readings = [], deviation_detected = False, deviation_percent = Fin 0,
      alert_level = ''NONE'', trigger_recal = False\<rparr>
   \<and> simulate_stream mean_rng 180 5 2 =
     \<lparr>readings =
        [\<lparr>index = 1, sbc_kNm2 = 180, is_anomaly = False, timestamp = []\<rparr>,
         \<lparr>index = 2, sbc_kNm2 = 180, is_anomaly = False, timestamp = []\<rparr>],
      deviation_detected = False, deviation_percent = Fin 0,
      alert_level = ''NONE'', trigger_recal = False\<rparr>
   \<and> simulate_stream mean_rng 180 0 2 =
     \<lparr>readings =
        [\<lparr>index = 1, sbc_kNm2 = b64r (702 / 5), is_anomaly = True, timestamp = []\<rparr>,
         \<lparr>index = 2, sbc_kNm2 = b64r (702 / 5), is_anomaly = True, timestamp = []\<rparr>],
      deviation_detected = True, deviation_percent = Fin 22,
      alert_level = ''CRITICAL'', trigger_recal = True\<rparr>
   \<and> simulate_stream mean_rng (- 180) 1 2 =
     \<lparr>readings =
        [\<lparr>index = 1, sbc_kNm2 = b64r (- (702 / 5)), is_anomaly = True, timestamp = []\<rparr>,
         \<lparr>index = 2, sbc_kNm2 = b64r (- (702 / 5)), is_anomaly = True, timestamp = []\<rparr>],
      deviation_detected = True, deviation_percent = Fin 22,
      alert_level = ''CRITICAL'', trigger_recal = True\<rparr>
   \<and> simulate_stream mean_rng 0 1 2 =
     \<lparr>readings =
        [\<lparr>index = 1, sbc_kNm2 = 0, is_anomaly = True, timestamp = []\<rparr>,
         \<lparr>index = 2, sbc_kNm2 = 0, is_anomaly = True, timestamp = []\<rparr>],
      deviation_detected = True, deviation_percent = NaN,
      alert_level = ''NONE'', trigger_recal = False\<rparr>"
proof -
  note rd = simulate_readings mean_rng_def upto.simps[of 1] Let_def float_eval
  note dv = simulate_deviation simulate_detected window_eval float_eval
  have r3: "readings (simulate_stream mean_rng 180 5 2) =
        [\<lparr>index = 1, sbc_kNm2 = 180, is_anomaly = False, timestamp = []\<rparr>,
         \<lparr>index = 2, sbc_kNm2 = 180, is_anomaly = False, timestamp = []\<rparr>]"
    by (simp add: rd)
  have r4: "readings (simulate_stream mean_rng 180 0 2) =
        [\<lparr>index = 1, sbc_kNm2 = b64r (702 / 5), is_anomaly = True, timestamp = []\<rparr>,
         \<lparr>index = 2, sbc_kNm2 = b64r (702 / 5), is_anomaly = True, timestamp = []\<rparr>]"
    by (simp add: rd)
  have r5: "readings (simulate_stream mean_rng (- 180) 1 2) =
        [\<lparr>index = 1, sbc_kNm2 = b64r (- (702 / 5)), is_anomaly = True, timestamp = []\<rparr>,
         \<lparr>index = 2, sbc_kNm2 = b64r (- (702 / 5)), is_anomaly = True, timestamp = []\<rparr>]"
    by (simp add: rd)
  have r6: "readings (simulate_stream mean_rng 0 1 2) =
        [\<lparr>index = 1, sbc_kNm2 = 0, is_anomaly = True, timestamp = []\<rparr>,
         \<lparr>index = 2, sbc_kNm2 = 0, is_anomaly = True, timestamp = []\<rparr>]"
    by (simp add: rd)
  have d3: "deviation_percent (simulate_stream mean_rng 180 5 2) = Fin 0"
    by (simp add: simulate_not_detected)
  have d4: "deviation_percent (simulate_stream mean_rng 180 0 2) = Fin 22"
    by (simp add: r4 dv)
  have d5: "deviation_percent (simulate_stream mean_rng (- 180) 1 2) = Fin 22"
    by (simp add: r5 dv)
  have d6: "deviation_percent (simulate_stream mean_rng 0 1 2) = NaN"
    by (simp add: r6 dv)
  have "simulate_stream mean_rng 180 5 2 =
     \<lparr>readings =
        [\<lparr>index = 1, sbc_kNm2 = 180, is_anomaly = False, timestamp = []\<rparr>,
         \<lparr>index = 2, sbc_kNm2 = 180, is_anomaly = False, timestamp = []\<rparr>],
      deviation_detected = False, deviation_percent = Fin 0,
      alert_level = ''NONE'', trigger_recal = False\<rparr>"
    by (subst simulate_record) (simp add: r3 d3 simulate_detected simulate_alert_level_def)
  moreover have "simulate_stream mean_rng 180 0 2 =
     \<lparr>readings =
        [\<lparr>index = 1, sbc_kNm2 = b64r (702 / 5), is_anomaly = True, timestamp = []\<rparr>,
         \<lparr>index = 2, sbc_kNm2 = b64r (702 / 5), is_anomaly = True, timestamp = []\<rparr>],
      deviation_detected = True, deviation_percent = Fin 22,
      alert_level = ''CRITICAL'', trigger_recal = True\<rparr>"
    by (subst simulate_record) (simp add: r4 d4 simulate_detected simulate_alert_level_def)
  moreover have "simulate_stream mean_rng (- 180) 1 2 =
     \<lparr>readings =
        [\<lparr>index = 1, sbc_kNm2 = b64r (- (702 / 5)), is_anomaly = True, timestamp = []\<rparr>,
         \<lparr>index = 2, sbc_kNm2 = b64r (- (702 / 5)), is_anomaly = True, timestamp = []\<rparr>],
      deviation_detected = True, deviation_percent = Fin 22,
      alert_level = ''CRITICAL'', trigger_recal = True\<rparr>"
    by (subst simulate_record) (simp add: r5 d5 simulate_detected simulate_alert_level_def)
  moreover have "simulate_stream mean_rng 0 1 2 =
     \<lparr>readings =
        [\<lparr>index = 1, sbc_kNm2 = 0, is_anomaly = True, timestamp = []\<rparr>,
         \<lparr>index = 2, sbc_kNm2 = 0, is_anomaly = True, timestamp = []\<rparr>],
      deviation_detected = True, deviation_percent = NaN,
      alert_level = ''NONE'', trigger_recal = False\<rparr>"
    by (subst simulate_record) (simp add: r6 d6 simulate_detected simulate_alert_level_def)
  ultimately show ?thesis
    by (simp add: simulate_no_readings)
qed

text \<open>
  Claim C9, amended. \<open>simulate_stream\<close> validates nothing and returns a result for every
  baseline, degradation start and total: the readings are indexed from 1 to the total
  (none for a non-positive total), a reading is anomalous exactly when its index has
  reached the degradation start, and a deviation is detected exactly when the total is at
  least 1 and the start is at most the total. A non-positive total gives the empty result
  with deviation 0.0, alert level NONE and no trigger; so does, apart from the readings, a
  start above the total. With the baseline 0 and a detection the deviation is an infinity
  or NaN, not an error.
\<close>

theorem simulate_stream_accepts_every_input:
  "map index (readings (simulate_stream rng b s n)) = [1..n]
   \<and> (\<forall>r \<in> set (readings (simulate_stream rng b s n)). is_anomaly r = (s \<le> index r))
   \<and> deviation_detected (simulate_stream rng b s n) = (1 \<le> n \<and> s \<le> n)
   \<and> (n \<le> 0 \<longrightarrow>
        simulate_stream rng b s n =
          \<lparr>readings = [], deviation_detected = False, deviation_percent = Fin 0,
           alert_level = ''NONE'', trigger_recal = False\<rparr>)
   \<and> (n < s \<longrightarrow>
        deviation_detected (simulate_stream rng b s n) = False
        \<and> deviation_percent (simulate_stream rng b s n) = Fin 0
        \<and> alert_level (simulate_stream rng b s n) = ''NONE''
        \<and> trigger_recal (simulate_stream rng b s n) = False)
   \<and> (1 \<le> n \<and> s \<le> n \<longrightarrow>
        deviation_percent (simulate_stream rng 0 s n) \<in> {PInf, NInf, NaN})"
proof (intro conjI impI ballI)
  show "map index (readings (simulate_stream rng b s n)) = [1..n]"
    by (rule simulate_indices)
next
  fix r
  assume "r \<in> set (readings (simulate_stream rng b s n))"
  then show "is_anomaly r = (s \<le> index r)"
    by (rule simulate_anomaly_flags)
next
  show "deviation_detected (simulate_stream rng b s n) = (1 \<le> n \<and> s \<le> n)"
    by (rule simulate_detected)
next
  assume "n \<le> 0"
  then show "simulate_stream rng b s n =
          \<lparr>readings = [], deviation_detected = False, deviation_percent = Fin 0,
           alert_level = ''NONE'', trigger_recal = False\<rparr>"
    by (rule simulate_no_readings)
next
  assume a: "n < s"
  then have "\<not> (1 \<le> n \<and> s \<le> n)" by simp
  from simulate_not_detected [OF this]
  show "deviation_percent (simulate_stream rng b s n) = Fin 0"
    and "alert_level (simulate_stream rng b s n) = ''NONE''"
    and "trigger_recal (simulate_stream rng b s n) = False"
    by simp_all
  from a show "deviation_detected (simulate_stream rng b s n) = False"
    by (simp add: simulate_detected)
next
  assume "1 \<le> n \<and> s \<le> n"
  then have "1 \<le> n" "s \<le> n" by simp_all
  then show "deviation_percent (simulate_stream rng 0 s n) \<in> {PInf, NInf, NaN}"
    by (rule simulate_zero_baseline)
qed

theorem simulate_stream_accepts_every_input_witness:
  "(0::int) \<le> 0
   \<and> simulate_stream mean_rng 180 12 0 =
        \<lparr>readings = [], deviation_detected = False, deviation_percent = Fin 0,
         alert_level = ''NONE'', trigger_recal = False\<rparr>
   \<and> (2::int) < 5
   \<and> deviation_detected (simulate_stream mean_rng 180 5 2) = False
   \<and> deviation_percent (simulate_stream mean_rng 180 5 2) = Fin 0
   \<and> alert_level (simulate_stream mean_rng 180 5 2) = ''NONE''
   \<and> trigger_recal (simulate_stream mean_rng 180 5 2) = False
   \<and> (1::int) \<le> 2
   \<and> deviation_percent (simulate_stream mean_rng 0 1 2) \<in> {PInf, NInf, NaN}
   \<and> map index (readings (simulate_stream mean_rng 180 0 2)) = [1, 2]
   \<and> map is_anomaly (readings (simulate_stream mean_rng 180 0 2)) = [True, True]"
proof -
  have u: "[1..2] = [1, 2::int]"
    by (simp add: upto.simps[of 1])
  have rs: "readings (simulate_stream mean_rng 180 0 2) =
        [\<lparr>index = 1, sbc_kNm2 = b64r (702 / 5), is_anomaly = True, timestamp = []\<rparr>,
         \<lparr>index = 2, sbc_kNm2 = b64r (702 / 5), is_anomaly = True, timestamp = []\<rparr>]"
    by (simp add: simulate_readings mean_rng_def upto.simps[of 1] Let_def float_eval)
  from simulate_stream_accepts_every_input [where rng = mean_rng and b = 180 and s = 12 and n = 0]
    simulate_stream_accepts_every_input [where rng = mean_rng and b = 180 and s = 5 and n = 2]
    simulate_stream_accepts_every_input [where rng = mean_rng and b = 180 and s = 1 and n = 2]
    simulate_stream_accepts_every_input [where rng = mean_rng and b = 180 and s = 0 and n = 2]
  show ?thesis
    by (simp add: u rs)
qed

end
